theory Spec2Isabelle
  imports Main
begin

section \<open>The relational store\<close>

text \<open>
  The tables are those of \<^verbatim>\<open>migrations/001_initial_schema.sql\<close>. A table is the list
  of its rows in insertion order; a nullable column is an \<open>option\<close>, a column that is
  \<^verbatim>\<open>NOT NULL\<close> or part of a primary key is a plain value. A \<^verbatim>\<open>uuid\<close> and a
  \<^verbatim>\<open>TIMESTAMPTZ\<close> are kept as their text, a \<^verbatim>\<open>JSONB\<close> value as a JSON tree.
  \<^verbatim>\<open>recall_bot_id\<close> stays an option because the schema of the Supabase variant
  (\<^verbatim>\<open>recall_bot_id TEXT UNIQUE\<close>) allows NULL there.
\<close>

type_synonym uuid = string
type_synonym timestamptz = string

datatype json =
    JNull
  | JBool bool
  | JNum int
  | JStr string
  | JArr "json list"
  | JObj "(string \<times> json) list"

record block =
  b_block_id :: uuid
  b_name :: string
  b_description :: "string option"
  b_block_type :: "string option"
  b_metadata :: "json option"
  b_created_at :: "timestamptz option"
  b_updated_at :: "timestamptz option"

record block_meeting =
  m_block_id :: uuid
  m_recall_bot_id :: "string option"
  m_meeting_url :: string
  m_status :: "string option"
  m_invited_by_user_id :: "int option"
  m_full_transcript :: "json option"
  m_started_at :: "timestamptz option"
  m_ended_at :: "timestamptz option"
  m_created_at :: "timestamptz option"
  m_updated_at :: "timestamptz option"

record block_attendee =
  a_id :: int
  a_block_id :: "uuid option"
  a_name :: string
  a_user_id :: "int option"
  a_story :: "string option"
  a_speaking_time_seconds :: "int option"
  a_created_at :: "timestamptz option"
  a_updated_at :: "timestamptz option"

record turn =
  t_turn_id :: uuid
  t_participant_id :: "int option"
  t_content :: string
  t_source_type :: "string option"
  t_metadata :: "json option"
  t_timestamp :: "timestamptz option"
  t_created_at :: "timestamptz option"

record block_turn =
  bt_block_id :: uuid
  bt_turn_id :: uuid
  bt_sequence_order :: int
  bt_created_at :: "timestamptz option"

text \<open>
  The store. \<open>block_attendees_id_seq\<close> is the sequence behind the \<^verbatim>\<open>BIGSERIAL\<close>
  column \<^verbatim>\<open>block_attendees.id\<close> (its last value). The row type of \<^verbatim>\<open>turns\<close> is
  a parameter: the two variants of \<^verbatim>\<open>server.js\<close> write different columns to it.
\<close>

record 't database =
  blocks :: "block list"
  block_meetings :: "block_meeting list"
  block_attendees :: "block_attendee list"
  block_attendees_id_seq :: int
  turns :: "'t list"
  block_turns :: "block_turn list"

datatype db_error =
    NotNullViolation
  | UniqueViolation
  | ForeignKeyViolation
  | NumericValueOutOfRange
  | StringDataRightTruncation
  | InvalidTextRepresentation

text \<open>
  The answers of Recall.ai: to the request that creates a bot (\<^verbatim>\<open>recallResponse.ok\<close>
  with the parsed body \<^verbatim>\<open>botData\<close>, a response that is not ok with its status and
  text, or a \<^verbatim>\<open>fetch\<close> that throws), and to the request for the transcript.
\<close>

datatype recall_response =
    RecallOk json
  | RecallNotOk nat string
  | RecallThrows

datatype transcript_response =
    TranscriptOk json
  | TranscriptNotOk nat
  | TranscriptThrows

text \<open>
  What a handler reads from outside the store during one run: the clock of the Node
  process (\<^verbatim>\<open>new Date().toISOString()\<close>, read up to twice), the clock of the database
  (\<^verbatim>\<open>NOW()\<close>), the value \<^verbatim>\<open>uuid_generate_v4()\<close> returns, and the answers of
  Recall.ai. \<open>jsonb_in\<close> is the store's reading of a text as a \<^verbatim>\<open>JSONB\<close> value
  (no value for a text that is not JSON); it is not part of the repository and stays a
  parameter.
\<close>

record world =
  js_now :: timestamptz
  js_now2 :: timestamptz
  db_now :: timestamptz
  new_uuid :: uuid
  recall_create :: recall_response
  recall_transcript :: transcript_response
  jsonb_in :: "string \<Rightarrow> json option"

section \<open>Incoming events\<close>

text \<open>
  A message on the WebSocket, after \<^verbatim>\<open>JSON.parse\<close>. Only the fields the handler
  reads are kept; a field that is missing (or null) is \<open>None\<close>, and the text fields
  are strings when present.
\<close>

record transcript =
  tr_bot_id :: "string option"
  tr_speaker :: "string option"
  tr_text :: "string option"
  tr_timestamp :: "string option"
  tr_sequence :: "int option"

text \<open>JavaScript's \<^verbatim>\<open>x || d\<close> on an optional string: the empty string is falsy.\<close>

definition or_else :: "string option \<Rightarrow> string \<Rightarrow> string" where
  "or_else x d = (case x of None \<Rightarrow> d | Some s \<Rightarrow> if s = [] then d else s)"

definition truthy :: "string option \<Rightarrow> bool" where
  "truthy x = (case x of None \<Rightarrow> False | Some s \<Rightarrow> s \<noteq> [])"

section \<open>Queries of the PostgreSQL variant\<close>

text \<open>\<^verbatim>\<open>SELECT block_id FROM block_meetings WHERE recall_bot_id = $1\<close>, then
  \<^verbatim>\<open>rows[0]\<close>. A NULL parameter equals no row.\<close>

definition select_meeting :: "'t database \<Rightarrow> string option \<Rightarrow> block_meeting option" where
  "select_meeting db botId =
     find (\<lambda>m. botId \<noteq> None \<and> m_recall_bot_id m = botId) (block_meetings db)"

text \<open>\<^verbatim>\<open>SELECT * FROM block_attendees WHERE block_id = $1 AND name = $2\<close>.\<close>

definition select_attendees :: "'t database \<Rightarrow> uuid \<Rightarrow> string option \<Rightarrow> block_attendee list" where
  "select_attendees db blockId speakerName =
     filter (\<lambda>a. a_block_id a = Some blockId \<and> Some (a_name a) = speakerName)
       (block_attendees db)"

text \<open>
  \<^verbatim>\<open>INSERT INTO block_attendees (block_id, name, story) VALUES ($1, $2, $3) RETURNING *\<close>.
  The columns left out take their defaults: \<^verbatim>\<open>id\<close> the next value of the
  sequence (consumed even when the insert is rejected), \<^verbatim>\<open>user_id\<close> NULL,
  \<^verbatim>\<open>speaking_time_seconds\<close> 0, both timestamps \<^verbatim>\<open>NOW()\<close>. The insert is
  rejected by \<^verbatim>\<open>name TEXT NOT NULL\<close>, by the primary key, by the unique index
  \<^verbatim>\<open>idx_block_attendees_unique (block_id, name)\<close> and by the foreign key to
  \<^verbatim>\<open>blocks\<close>.
\<close>

definition insert_attendee ::
  "world \<Rightarrow> 't database \<Rightarrow> uuid \<Rightarrow> string option \<Rightarrow> string \<Rightarrow>
   (db_error + block_attendee) \<times> 't database" where
  "insert_attendee w db blockId speakerName story =
     (let new_id = block_attendees_id_seq db + 1;
          db1 = db\<lparr>block_attendees_id_seq := new_id\<rparr>
      in case speakerName of
           None \<Rightarrow> (Inl NotNullViolation, db1)
         | Some n \<Rightarrow>
             if new_id \<in> set (map a_id (block_attendees db)) then (Inl UniqueViolation, db1)
             else if select_attendees db blockId (Some n) \<noteq> [] then (Inl UniqueViolation, db1)
             else if blockId \<notin> set (map b_block_id (blocks db)) then (Inl ForeignKeyViolation, db1)
             else
               (let row = \<lparr>a_id = new_id, a_block_id = Some blockId, a_name = n,
                           a_user_id = None, a_story = Some story,
                           a_speaking_time_seconds = Some 0,
                           a_created_at = Some (db_now w), a_updated_at = Some (db_now w)\<rparr>
                in (Inr row, db1\<lparr>block_attendees := block_attendees db @ [row]\<rparr>)))"

text \<open>The template literal \<^verbatim>\<open>`${speakerName} joined the meeting.`\<close>; a missing name
  prints as \<^verbatim>\<open>undefined\<close>.\<close>

definition story_template :: "string option \<Rightarrow> string" where
  "story_template speakerName =
     (case speakerName of None \<Rightarrow> ''undefined'' | Some n \<Rightarrow> n) @ '' joined the meeting.''"

text \<open>\<^verbatim>\<open>getOrCreateAttendee(blockId, speakerName)\<close> of the PostgreSQL variant: a query
  that is rejected throws.\<close>

definition getOrCreateAttendee ::
  "world \<Rightarrow> 't database \<Rightarrow> uuid \<Rightarrow> string option \<Rightarrow>
   (db_error + block_attendee) \<times> 't database" where
  "getOrCreateAttendee w db blockId speakerName =
     (case select_attendees db blockId speakerName of
        a # _ \<Rightarrow> (Inr a, db)
      | [] \<Rightarrow> insert_attendee w db blockId speakerName (story_template speakerName))"

text \<open>
  \<^verbatim>\<open>INSERT INTO turns (participant_id, content, source_type, metadata) VALUES (...)
  RETURNING turn_id\<close>: \<^verbatim>\<open>turn_id\<close> defaults to a generated uuid, the timestamps to
  \<^verbatim>\<open>NOW()\<close>; \<^verbatim>\<open>content TEXT NOT NULL\<close> rejects a NULL and nothing else, and
  \<^verbatim>\<open>source_type\<close> is a \<^verbatim>\<open>VARCHAR(50)\<close>.
\<close>

definition insert_turn ::
  "world \<Rightarrow> turn database \<Rightarrow> int option \<Rightarrow> string option \<Rightarrow> string \<Rightarrow> json \<Rightarrow>
   db_error + (turn \<times> turn database)" where
  "insert_turn w db participant content source_type metadata =
     (case content of
        None \<Rightarrow> Inl NotNullViolation
      | Some c \<Rightarrow>
          if length source_type > 50 then Inl StringDataRightTruncation
          else if new_uuid w \<in> set (map t_turn_id (turns db)) then Inl UniqueViolation
          else
            (let row = \<lparr>t_turn_id = new_uuid w, t_participant_id = participant,
                        t_content = c, t_source_type = Some source_type,
                        t_metadata = Some metadata, t_timestamp = Some (db_now w),
                        t_created_at = Some (db_now w)\<rparr>
             in Inr (row, db\<lparr>turns := turns db @ [row]\<rparr>)))"

text \<open>The positions of a block's placements, in insertion order.\<close>

definition placements :: "'t database \<Rightarrow> uuid \<Rightarrow> int list" where
  "placements db blockId =
     map bt_sequence_order (filter (\<lambda>r. bt_block_id r = blockId) (block_turns db))"

text \<open>SQL's \<^verbatim>\<open>MAX\<close>: NULL over no rows.\<close>

primrec sql_max :: "int list \<Rightarrow> int option" where
  "sql_max [] = None"
| "sql_max (x # xs) = (case sql_max xs of None \<Rightarrow> Some x | Some m \<Rightarrow> Some (max x m))"

definition int4_max :: int where
  "int4_max = 2147483647"

definition int4_min :: int where
  "int4_min = - 2147483648"

text \<open>
  \<^verbatim>\<open>SELECT COALESCE(MAX(sequence_order), 0) + 1 as next_order FROM block_turns
  WHERE block_id = $1\<close>. The column is an \<^verbatim>\<open>INTEGER\<close>, and so is the sum: past the
  largest 32-bit value the query fails.
\<close>

definition next_order :: "'t database \<Rightarrow> uuid \<Rightarrow> db_error + int" where
  "next_order db blockId =
     (let m = (case sql_max (placements db blockId) of None \<Rightarrow> 0 | Some v \<Rightarrow> v)
      in if m + 1 > int4_max then Inl NumericValueOutOfRange else Inr (m + 1))"

text \<open>
  \<^verbatim>\<open>INSERT INTO block_turns (block_id, turn_id, sequence_order) VALUES ($1, $2, $3)\<close>:
  the primary key is \<^verbatim>\<open>(block_id, turn_id)\<close>, both columns are foreign keys.
\<close>

definition turn_ids :: "turn database \<Rightarrow> uuid list" where
  "turn_ids db = map t_turn_id (turns db)"

definition insert_block_turn ::
  "world \<Rightarrow> 't database \<Rightarrow> uuid list \<Rightarrow> uuid \<Rightarrow> uuid \<Rightarrow> int \<Rightarrow> db_error + 't database" where
  "insert_block_turn w db known_turns blockId turnId pos =
     (if pos < int4_min \<or> int4_max < pos then Inl NumericValueOutOfRange
      else if (blockId, turnId) \<in> set (map (\<lambda>r. (bt_block_id r, bt_turn_id r)) (block_turns db))
        then Inl UniqueViolation
      else if blockId \<notin> set (map b_block_id (blocks db)) \<or> turnId \<notin> set known_turns
        then Inl ForeignKeyViolation
      else Inr (db\<lparr>block_turns := block_turns db @
                  [\<lparr>bt_block_id = blockId, bt_turn_id = turnId, bt_sequence_order = pos,
                    bt_created_at = Some (db_now w)\<rparr>]\<rparr>))"

section \<open>The message handler of the PostgreSQL variant\<close>

text \<open>
  What one run of \<^verbatim>\<open>ws.on('message', ...)\<close> came to: the meeting was not found (the
  handler logs and returns), a query threw (the \<^verbatim>\<open>catch\<close> logs the error), or the
  turn was linked to the block at a position.
\<close>

datatype outcome =
    NoMeetingFound
  | ProcessingError db_error
  | Linked uuid uuid int

definition turn_metadata :: "world \<Rightarrow> transcript \<Rightarrow> json" where
  "turn_metadata w tr =
     JObj [(''timestamp'', JStr (or_else (tr_timestamp tr) (js_now w))),
           (''bot_id'', (case tr_bot_id tr of None \<Rightarrow> JNull | Some b \<Rightarrow> JStr b))]"

definition pg_on_message :: "world \<Rightarrow> turn database \<Rightarrow> transcript \<Rightarrow> outcome \<times> turn database" where
  "pg_on_message w db tr =
     (case select_meeting db (tr_bot_id tr) of
        None \<Rightarrow> (NoMeetingFound, db)
      | Some meeting \<Rightarrow>
          (case getOrCreateAttendee w db (m_block_id meeting) (tr_speaker tr) of
             (Inl e, db1) \<Rightarrow> (ProcessingError e, db1)
           | (Inr attendee, db1) \<Rightarrow>
               (case insert_turn w db1 (Some (a_id attendee)) (tr_text tr) ''recall_bot''
                       (turn_metadata w tr) of
                  Inl e \<Rightarrow> (ProcessingError e, db1)
                | Inr (turn, db2) \<Rightarrow>
                    (case next_order db2 (m_block_id meeting) of
                       Inl e \<Rightarrow> (ProcessingError e, db2)
                     | Inr pos \<Rightarrow>
                         (case insert_block_turn w db2 (turn_ids db2) (m_block_id meeting)
                                 (t_turn_id turn) pos of
                            Inl e \<Rightarrow> (ProcessingError e, db2)
                          | Inr db3 \<Rightarrow> (Linked (m_block_id meeting) (t_turn_id turn) pos, db3))))))"

text \<open>Messages handled one after the other, each run to its end before the next.\<close>

fun pg_run :: "turn database \<Rightarrow> (world \<times> transcript) list \<Rightarrow> outcome list \<times> turn database" where
  "pg_run db [] = ([], db)"
| "pg_run db ((w, tr) # rest) =
     (let (out, db1) = pg_on_message w db tr;
          (outs, db2) = pg_run db1 rest
      in (out # outs, db2))"

text \<open>The positions a list of runs linked to block \<open>c\<close>, in order.\<close>

fun linked_at :: "uuid \<Rightarrow> outcome \<Rightarrow> int list" where
  "linked_at c (Linked b t pos) = (if b = c then [pos] else [])"
| "linked_at c NoMeetingFound = []"
| "linked_at c (ProcessingError e) = []"

definition linked_positions :: "uuid \<Rightarrow> outcome list \<Rightarrow> int list" where
  "linked_positions c outs = concat (map (linked_at c) outs)"

section \<open>The message handler of the Supabase variant\<close>

text \<open>
  The Supabase variant writes other columns to \<^verbatim>\<open>turns\<close>; the declaration of that
  table is not part of the repository, so what it rejects is the parameter
  \<open>rejects\<close> of the insert. The other tables are taken as the migrations declare
  them.
\<close>

record sb_turn =
  st_turn_id :: uuid
  st_participant_id :: "int option"
  st_turn_text :: "string option"
  st_source_type :: "string option"
  st_turn_timestamp :: "string option"
  st_client_id :: "int option"

text \<open>\<^verbatim>\<open>.single()\<close>: the row when the query has exactly one, else no data.\<close>

definition single :: "'a list \<Rightarrow> 'a option" where
  "single rows = (case rows of [r] \<Rightarrow> Some r | _ \<Rightarrow> None)"

definition sb_select_meeting :: "'t database \<Rightarrow> string option \<Rightarrow> block_meeting option" where
  "sb_select_meeting db botId =
     single (filter (\<lambda>m. botId \<noteq> None \<and> m_recall_bot_id m = botId) (block_meetings db))"

text \<open>\<^verbatim>\<open>getOrCreateAttendee\<close> of the Supabase variant: the client returns an error
  instead of throwing, and the function returns the data, null after a rejected insert.\<close>

definition sb_getOrCreateAttendee ::
  "world \<Rightarrow> 't database \<Rightarrow> uuid \<Rightarrow> string option \<Rightarrow> block_attendee option \<times> 't database" where
  "sb_getOrCreateAttendee w db blockId speakerName =
     (case single (select_attendees db blockId speakerName) of
        Some a \<Rightarrow> (Some a, db)
      | None \<Rightarrow>
          (case insert_attendee w db blockId speakerName (story_template speakerName) of
             (Inl e, db1) \<Rightarrow> (None, db1)
           | (Inr a, db1) \<Rightarrow> (Some a, db1)))"

definition sb_insert_turn ::
  "(sb_turn \<Rightarrow> db_error option) \<Rightarrow> world \<Rightarrow> sb_turn database \<Rightarrow> int option \<Rightarrow>
   string option \<Rightarrow> string \<Rightarrow> string \<Rightarrow> int \<Rightarrow> db_error + (sb_turn \<times> sb_turn database)" where
  "sb_insert_turn rejects w db participant turn_text source_type turn_timestamp client =
     (let row = \<lparr>st_turn_id = new_uuid w, st_participant_id = participant,
                 st_turn_text = turn_text, st_source_type = Some source_type,
                 st_turn_timestamp = Some turn_timestamp, st_client_id = Some client\<rparr>
      in case rejects row of
           Some e \<Rightarrow> Inl e
         | None \<Rightarrow>
             if new_uuid w \<in> set (map st_turn_id (turns db)) then Inl UniqueViolation
             else Inr (row, db\<lparr>turns := turns db @ [row]\<rparr>))"

definition sb_turn_ids :: "sb_turn database \<Rightarrow> uuid list" where
  "sb_turn_ids db = map st_turn_id (turns db)"

text \<open>\<^verbatim>\<open>transcript.sequence || 0\<close>: a missing hint and the hint 0 both give 0.\<close>

definition sequence_or_0 :: "transcript \<Rightarrow> int" where
  "sequence_or_0 tr = (case tr_sequence tr of None \<Rightarrow> 0 | Some n \<Rightarrow> if n = 0 then 0 else n)"

text \<open>
  The runs of the Supabase handler: no meeting, a \<^verbatim>\<open>TypeError\<close> on
  \<^verbatim>\<open>attendee.id\<close> when no attendee came back, a turn that was rejected
  (\<^verbatim>\<open>turnError\<close>), a placement that was rejected (the handler does not look at the
  result of that insert), or a turn linked at a position.
\<close>

datatype sb_outcome =
    SbNoMeetingFound
  | SbTypeError
  | SbTurnError db_error
  | SbLinkRejected db_error
  | SbLinked uuid uuid int

definition sb_on_message ::
  "(sb_turn \<Rightarrow> db_error option) \<Rightarrow> world \<Rightarrow> sb_turn database \<Rightarrow> transcript \<Rightarrow>
   sb_outcome \<times> sb_turn database" where
  "sb_on_message rejects w db tr =
     (case sb_select_meeting db (tr_bot_id tr) of
        None \<Rightarrow> (SbNoMeetingFound, db)
      | Some meeting \<Rightarrow>
          (case sb_getOrCreateAttendee w db (m_block_id meeting) (tr_speaker tr) of
             (None, db1) \<Rightarrow> (SbTypeError, db1)
           | (Some attendee, db1) \<Rightarrow>
               (case sb_insert_turn rejects w db1 (Some (a_id attendee)) (tr_text tr)
                       ''recall_bot'' (or_else (tr_timestamp tr) (js_now w)) 1 of
                  Inl e \<Rightarrow> (SbTurnError e, db1)
                | Inr (turn, db2) \<Rightarrow>
                    (case insert_block_turn w db2 (sb_turn_ids db2) (m_block_id meeting)
                            (st_turn_id turn) (sequence_or_0 tr) of
                       Inl e \<Rightarrow> (SbLinkRejected e, db2)
                     | Inr db3 \<Rightarrow>
                         (SbLinked (m_block_id meeting) (st_turn_id turn) (sequence_or_0 tr), db3)))))"

fun sb_run ::
  "(sb_turn \<Rightarrow> db_error option) \<Rightarrow> sb_turn database \<Rightarrow> (world \<times> transcript) list \<Rightarrow>
   sb_outcome list \<times> sb_turn database" where
  "sb_run rejects db [] = ([], db)"
| "sb_run rejects db ((w, tr) # rest) =
     (let (out, db1) = sb_on_message rejects w db tr;
          (outs, db2) = sb_run rejects db1 rest
      in (out # outs, db2))"

section \<open>Two calls of getOrCreateAttendee that race\<close>

text \<open>
  \<^verbatim>\<open>getOrCreateAttendee\<close> is an \<^verbatim>\<open>async\<close> function with two awaited queries: it
  runs up to the \<^verbatim>\<open>SELECT\<close>, and when that found nothing, later, the \<^verbatim>\<open>INSERT\<close>.
  Each query is one atomic statement of the store; between the two, other handlers run.
\<close>

datatype call =
    Start
  | AwaitingInsert
  | Returned block_attendee
  | Threw db_error

fun call_step ::
  "world \<Rightarrow> uuid \<Rightarrow> string option \<Rightarrow> call \<Rightarrow> 't database \<Rightarrow> call \<times> 't database" where
  "call_step w blockId speakerName Start db =
     (case select_attendees db blockId speakerName of
        a # _ \<Rightarrow> (Returned a, db)
      | [] \<Rightarrow> (AwaitingInsert, db))"
| "call_step w blockId speakerName AwaitingInsert db =
     (case insert_attendee w db blockId speakerName (story_template speakerName) of
        (Inl e, db1) \<Rightarrow> (Threw e, db1)
      | (Inr a, db1) \<Rightarrow> (Returned a, db1))"
| "call_step w blockId speakerName (Returned a) db = (Returned a, db)"
| "call_step w blockId speakerName (Threw e) db = (Threw e, db)"

text \<open>Two calls for the same block and speaker; the schedule says which of them runs
  its next query (\<open>True\<close>: the first).\<close>

fun race ::
  "world \<Rightarrow> world \<Rightarrow> uuid \<Rightarrow> string option \<Rightarrow> bool list \<Rightarrow>
   call \<times> call \<times> 't database \<Rightarrow> call \<times> call \<times> 't database" where
  "race w1 w2 blockId speakerName [] st = st"
| "race w1 w2 blockId speakerName (first # sched) (c1, c2, db) =
     (if first then
        (let (c1', db') = call_step w1 blockId speakerName c1 db
         in race w1 w2 blockId speakerName sched (c1', c2, db'))
      else
        (let (c2', db') = call_step w2 blockId speakerName c2 db
         in race w1 w2 blockId speakerName sched (c1, c2', db')))"

section \<open>The webhook of the PostgreSQL variant\<close>

record webhook_event =
  ev_bot_id :: "string option"
  ev_status :: "string option"

text \<open>What a route sends back: \<^verbatim>\<open>res.status(n).send(text)\<close>,
  \<^verbatim>\<open>res.status(n).json({ error: ... })\<close> (the details left out), or the JSON of a bot
  that was created.\<close>

datatype response =
    SendText nat string
  | SendError nat string
  | SendCreated json block block_meeting

text \<open>An entry of \<^verbatim>\<open>updateData\<close>: a column of \<^verbatim>\<open>block_meetings\<close> and its new value.\<close>

datatype assignment =
    Set_status "string option"
  | Set_updated_at timestamptz
  | Set_ended_at timestamptz
  | Set_full_transcript json

definition updateData :: "world \<Rightarrow> webhook_event \<Rightarrow> assignment list" where
  "updateData w event =
     [Set_status (ev_status event), Set_updated_at (js_now w)] @
     (if ev_status event = Some ''completed'' then
        Set_ended_at (js_now2 w) #
        (case recall_transcript w of
           TranscriptOk fullTranscript \<Rightarrow> [Set_full_transcript fullTranscript]
         | TranscriptNotOk st \<Rightarrow> []
         | TranscriptThrows \<Rightarrow> [])
      else [])"

text \<open>
  \<^verbatim>\<open>Object.values(updateData)\<close> goes to \<^verbatim>\<open>pool.query\<close> as it is, and the driver
  decides the text it sends for each value. For the \<^verbatim>\<open>JSONB\<close> parameter
  \<^verbatim>\<open>full_transcript\<close>: \<^verbatim>\<open>null\<close> is sent as NULL; an array is sent as a PostgreSQL
  array literal, which for the empty array is \<^verbatim>\<open>{}\<close> and reads as the empty JSON
  object, and for any other array is a brace list of quoted elements without keys, which
  is no JSON, so the store rejects the parameter; a string is sent as its own characters,
  which the store reads as JSON text; an object, a number or a boolean is sent as its JSON
  text and stored as the value it denotes.
\<close>

definition bind_jsonb :: "(string \<Rightarrow> json option) \<Rightarrow> json \<Rightarrow> db_error + json option" where
  "bind_jsonb reading v =
     (case v of
        JNull \<Rightarrow> Inr None
      | JBool b \<Rightarrow> Inr (Some v)
      | JNum n \<Rightarrow> Inr (Some v)
      | JStr s \<Rightarrow>
          (case reading s of
             None \<Rightarrow> Inl InvalidTextRepresentation
           | Some j \<Rightarrow> Inr (Some j))
      | JArr xs \<Rightarrow> if xs = [] then Inr (Some (JObj [])) else Inl InvalidTextRepresentation
      | JObj kvs \<Rightarrow> Inr (Some v))"

text \<open>A column and the value the store has accepted for it.\<close>

datatype column_value =
    Col_status "string option"
  | Col_updated_at timestamptz
  | Col_ended_at timestamptz
  | Col_full_transcript "json option"

fun bind_param :: "(string \<Rightarrow> json option) \<Rightarrow> assignment \<Rightarrow> db_error + column_value" where
  "bind_param reading (Set_status v) = Inr (Col_status v)"
| "bind_param reading (Set_updated_at v) = Inr (Col_updated_at v)"
| "bind_param reading (Set_ended_at v) = Inr (Col_ended_at v)"
| "bind_param reading (Set_full_transcript v) =
     (case bind_jsonb reading v of Inl e \<Rightarrow> Inl e | Inr j \<Rightarrow> Inr (Col_full_transcript j))"

text \<open>All parameters are read before any row is touched: one that is rejected fails the
  whole statement.\<close>

fun bind_params ::
  "(string \<Rightarrow> json option) \<Rightarrow> assignment list \<Rightarrow> db_error + column_value list" where
  "bind_params reading [] = Inr []"
| "bind_params reading (a # rest) =
     (case bind_param reading a of
        Inl e \<Rightarrow> Inl e
      | Inr c \<Rightarrow>
          (case bind_params reading rest of
             Inl e \<Rightarrow> Inl e
           | Inr cs \<Rightarrow> Inr (c # cs)))"

fun set_column :: "column_value \<Rightarrow> block_meeting \<Rightarrow> block_meeting" where
  "set_column (Col_status v) m = m\<lparr>m_status := v\<rparr>"
| "set_column (Col_updated_at v) m = m\<lparr>m_updated_at := Some v\<rparr>"
| "set_column (Col_ended_at v) m = m\<lparr>m_ended_at := Some v\<rparr>"
| "set_column (Col_full_transcript v) m = m\<lparr>m_full_transcript := v\<rparr>"

text \<open>
  \<^verbatim>\<open>UPDATE block_meetings SET ... WHERE recall_bot_id = $1\<close>. The trigger
  \<^verbatim>\<open>update_block_meetings_updated_at\<close> runs before the update of each row and sets
  \<^verbatim>\<open>updated_at = NOW()\<close>.
\<close>

definition update_row :: "world \<Rightarrow> column_value list \<Rightarrow> block_meeting \<Rightarrow> block_meeting" where
  "update_row w cols m = (fold set_column cols m)\<lparr>m_updated_at := Some (db_now w)\<rparr>"

definition update_block_meetings ::
  "world \<Rightarrow> 't database \<Rightarrow> string \<Rightarrow> assignment list \<Rightarrow> db_error + 't database" where
  "update_block_meetings w db botId assignments =
     (case bind_params (jsonb_in w) assignments of
        Inl e \<Rightarrow> Inl e
      | Inr cols \<Rightarrow>
          Inr (db\<lparr>block_meetings :=
                  map (\<lambda>m. if m_recall_bot_id m = Some botId then update_row w cols m else m)
                    (block_meetings db)\<rparr>))"

text \<open>\<^verbatim>\<open>app.post('/webhook', ...)\<close>: a query that throws ends in the \<^verbatim>\<open>catch\<close>, which
  answers 500.\<close>

definition webhook :: "world \<Rightarrow> 't database \<Rightarrow> webhook_event \<Rightarrow> response \<times> 't database" where
  "webhook w db event =
     (case ev_bot_id event of
        None \<Rightarrow> (SendText 200 ''OK'', db)
      | Some botId \<Rightarrow>
          if botId = [] then (SendText 200 ''OK'', db)
          else
            (case update_block_meetings w db botId (updateData w event) of
               Inl e \<Rightarrow> (SendText 500 ''Error processing webhook'', db)
             | Inr db1 \<Rightarrow> (SendText 200 ''OK'', db1)))"

section \<open>Creating a bot, PostgreSQL variant\<close>

record create_request =
  req_meeting_url :: "string option"
  req_client_id :: "int option"
  req_meeting_name :: "string option"

text \<open>\<^verbatim>\<open>botData.id\<close>: the string under the key \<^verbatim>\<open>id\<close>, when there is one.\<close>

fun json_id :: "json \<Rightarrow> string option" where
  "json_id (JObj kvs) = (case map_of kvs ''id'' of Some (JStr s) \<Rightarrow> Some s | _ \<Rightarrow> None)"
| "json_id _ = None"

definition int8_max :: int where
  "int8_max = 9223372036854775807"

definition int8_min :: int where
  "int8_min = - 9223372036854775808"

text \<open>
  \<^verbatim>\<open>INSERT INTO blocks (name, description, block_type, metadata) VALUES (...) RETURNING *\<close>:
  \<^verbatim>\<open>name\<close> is a \<^verbatim>\<open>VARCHAR(255)\<close>, \<^verbatim>\<open>block_type\<close> a \<^verbatim>\<open>VARCHAR(50)\<close>, the key
  a generated uuid.
\<close>

definition insert_block ::
  "world \<Rightarrow> 't database \<Rightarrow> string \<Rightarrow> string \<Rightarrow> string \<Rightarrow> json \<Rightarrow>
   db_error + (block \<times> 't database)" where
  "insert_block w db name description block_type metadata =
     (if length name > 255 \<or> length block_type > 50 then Inl StringDataRightTruncation
      else if new_uuid w \<in> set (map b_block_id (blocks db)) then Inl UniqueViolation
      else
        (let row = \<lparr>b_block_id = new_uuid w, b_name = name, b_description = Some description,
                     b_block_type = Some block_type, b_metadata = Some metadata,
                     b_created_at = Some (db_now w), b_updated_at = Some (db_now w)\<rparr>
         in Inr (row, db\<lparr>blocks := blocks db @ [row]\<rparr>)))"

text \<open>
  \<^verbatim>\<open>INSERT INTO block_meetings (block_id, recall_bot_id, meeting_url, invited_by_user_id,
  status) VALUES (...) RETURNING *\<close>: \<^verbatim>\<open>recall_bot_id TEXT UNIQUE NOT NULL\<close>,
  \<^verbatim>\<open>invited_by_user_id BIGINT\<close>, the primary key \<^verbatim>\<open>block_id\<close> a foreign key to
  \<^verbatim>\<open>blocks\<close>.
\<close>

definition insert_block_meeting ::
  "world \<Rightarrow> 't database \<Rightarrow> uuid \<Rightarrow> string option \<Rightarrow> string \<Rightarrow> int option \<Rightarrow> string \<Rightarrow>
   db_error + (block_meeting \<times> 't database)" where
  "insert_block_meeting w db blockId botId meeting_url client_id status =
     (case botId of
        None \<Rightarrow> Inl NotNullViolation
      | Some bid \<Rightarrow>
          if (case client_id of None \<Rightarrow> False | Some c \<Rightarrow> c < int8_min \<or> int8_max < c)
            then Inl NumericValueOutOfRange
          else if blockId \<in> set (map m_block_id (block_meetings db)) then Inl UniqueViolation
          else if Some bid \<in> set (map m_recall_bot_id (block_meetings db)) then Inl UniqueViolation
          else if blockId \<notin> set (map b_block_id (blocks db)) then Inl ForeignKeyViolation
          else
            (let row = \<lparr>m_block_id = blockId, m_recall_bot_id = Some bid,
                         m_meeting_url = meeting_url, m_status = Some status,
                         m_invited_by_user_id = client_id, m_full_transcript = None,
                         m_started_at = Some (db_now w), m_ended_at = None,
                         m_created_at = Some (db_now w), m_updated_at = Some (db_now w)\<rparr>
             in Inr (row, db\<lparr>block_meetings := block_meetings db @ [row]\<rparr>)))"

text \<open>\<^verbatim>\<open>app.post('/api/create-bot', ...)\<close>: a query that throws ends in the \<^verbatim>\<open>catch\<close>,
  which answers 500 and does nothing else.\<close>

definition pg_create_bot ::
  "world \<Rightarrow> 't database \<Rightarrow> create_request \<Rightarrow> response \<times> 't database" where
  "pg_create_bot w db req =
     (if \<not> truthy (req_meeting_url req) then (SendError 400 ''meeting_url is required'', db)
      else
        (let meeting_url = or_else (req_meeting_url req) [] in
         case recall_create w of
           RecallThrows \<Rightarrow> (SendError 500 ''Internal server error'', db)
         | RecallNotOk st err \<Rightarrow> (SendError st ''Failed to create bot'', db)
         | RecallOk botData \<Rightarrow>
             (case insert_block w db (or_else (req_meeting_name req) (''Meeting '' @ js_now w))
                     (''Meeting from '' @ meeting_url) ''meeting''
                     (JObj [(''created_by'', JStr ''recall_bot'')]) of
                Inl e \<Rightarrow> (SendError 500 ''Internal server error'', db)
              | Inr (block, db1) \<Rightarrow>
                  (case insert_block_meeting w db1 (b_block_id block) (json_id botData)
                          meeting_url (req_client_id req) ''joining'' of
                     Inl e \<Rightarrow> (SendError 500 ''Internal server error'', db1)
                   | Inr (meeting, db2) \<Rightarrow> (SendCreated botData block meeting, db2)))))"

text \<open>The blocks no meeting record points to.\<close>

definition orphan_blocks :: "'t database \<Rightarrow> block list" where
  "orphan_blocks db =
     filter (\<lambda>b. b_block_id b \<notin> set (map m_block_id (block_meetings db))) (blocks db)"

section \<open>A store and events to run the handlers on\<close>

text \<open>
  The session of the end-to-end scenario: a block \<open>S\<close> and its meeting record, for the
  bot \<open>bot-1\<close>, as \<^verbatim>\<open>/api/create-bot\<close> leaves them; no attendee and no turn yet.
\<close>

definition block_S :: block where
  "block_S = \<lparr>b_block_id = ''S'', b_name = ''Standup'',
     b_description = Some ''Meeting from https://call/abc'', b_block_type = Some ''meeting'',
     b_metadata = Some (JObj [(''created_by'', JStr ''recall_bot'')]),
     b_created_at = Some ''t0'', b_updated_at = Some ''t0''\<rparr>"

definition meeting_S :: block_meeting where
  "meeting_S = \<lparr>m_block_id = ''S'', m_recall_bot_id = Some ''bot-1'',
     m_meeting_url = ''https://call/abc'', m_status = Some ''joining'',
     m_invited_by_user_id = Some 7, m_full_transcript = None, m_started_at = Some ''t0'',
     m_ended_at = None, m_created_at = Some ''t0'', m_updated_at = Some ''t0''\<rparr>"

definition store_S :: "'t database" where
  "store_S = \<lparr>blocks = [block_S], block_meetings = [meeting_S], block_attendees = [],
     block_attendees_id_seq = 0, turns = [], block_turns = []\<rparr>"

text \<open>A run at time \<open>t\<close> in which the store generates the uuid \<open>u\<close> and Recall.ai
  answers \<open>created\<close> and \<open>fetched\<close>. No run below fetches a transcript that is a JSON
  string, so the reading of texts plays no part in them; it is set to accept none.\<close>

definition world_at :: "timestamptz \<Rightarrow> uuid \<Rightarrow> recall_response \<Rightarrow> transcript_response \<Rightarrow> world" where
  "world_at t u created fetched = \<lparr>js_now = t, js_now2 = t, db_now = t, new_uuid = u,
     recall_create = created, recall_transcript = fetched, jsonb_in = (\<lambda>s. None)\<rparr>"

definition quiet :: "timestamptz \<Rightarrow> uuid \<Rightarrow> world" where
  "quiet t u = world_at t u RecallThrows TranscriptThrows"

text \<open>A turn event of bot \<open>bot-1\<close>.\<close>

definition said :: "string \<Rightarrow> string option \<Rightarrow> int option \<Rightarrow> transcript" where
  "said who what hint = \<lparr>tr_bot_id = Some ''bot-1'', tr_speaker = Some who, tr_text = what,
     tr_timestamp = None, tr_sequence = hint\<rparr>"

text \<open>The attendee the first turn of Dana creates at time \<open>t1\<close>, and the store with it.\<close>

definition dana :: block_attendee where
  "dana = \<lparr>a_id = 1, a_block_id = Some ''S'', a_name = ''Dana'', a_user_id = None,
     a_story = Some ''Dana joined the meeting.'', a_speaking_time_seconds = Some 0,
     a_created_at = Some ''t1'', a_updated_at = Some ''t1''\<rparr>"

definition store_Dana :: "'t database" where
  "store_Dana = \<lparr>blocks = [block_S], block_meetings = [meeting_S], block_attendees = [dana],
     block_attendees_id_seq = 1, turns = [], block_turns = []\<rparr>"

text \<open>The store after the first and after the second turn of the scenario.\<close>

definition turns_1 :: "turn database" where
  "turns_1 = snd (pg_on_message (quiet ''t1'' ''u1'') store_S (said ''Dana'' (Some ''Let us start'') None))"

definition turns_2 :: "turn database" where
  "turns_2 = snd (pg_on_message (quiet ''t2'' ''u2'') turns_1 (said ''Dana'' (Some ''Agenda first'') None))"

text \<open>A second session \<open>T\<close>, of the bot \<open>bot-2\<close>, next to \<open>S\<close>.\<close>

definition block_T :: block where
  "block_T = \<lparr>b_block_id = ''T'', b_name = ''Retro'',
     b_description = Some ''Meeting from https://call/xyz'', b_block_type = Some ''meeting'',
     b_metadata = Some (JObj [(''created_by'', JStr ''recall_bot'')]),
     b_created_at = Some ''t0'', b_updated_at = Some ''t0''\<rparr>"

definition meeting_T :: block_meeting where
  "meeting_T = \<lparr>m_block_id = ''T'', m_recall_bot_id = Some ''bot-2'',
     m_meeting_url = ''https://call/xyz'', m_status = Some ''joining'',
     m_invited_by_user_id = Some 8, m_full_transcript = None, m_started_at = Some ''t0'',
     m_ended_at = None, m_created_at = Some ''t0'', m_updated_at = Some ''t0''\<rparr>"

definition store_ST :: "'t database" where
  "store_ST = \<lparr>blocks = [block_S, block_T], block_meetings = [meeting_S, meeting_T],
     block_attendees = [], block_attendees_id_seq = 0, turns = [], block_turns = []\<rparr>"

definition interleaved :: "(world \<times> transcript) list" where
  "interleaved =
     [(quiet ''t1'' ''u1'', said ''Dana'' (Some ''Let us start'') None),
      (quiet ''t2'' ''u2'', (said ''Eli'' (Some ''Hello'') None)\<lparr>tr_bot_id := Some ''bot-2''\<rparr>),
      (quiet ''t3'' ''u3'', said ''Dana'' (Some ''Agenda first'') None),
      (quiet ''t4'' ''u4'', (said ''Eli'' (Some ''Bye'') None)\<lparr>tr_bot_id := Some ''bot-2''\<rparr>),
      (quiet ''t5'' ''u5'', said ''Femi'' (Some ''Wait'') None)]"

definition no_hints :: "(world \<times> transcript) list" where
  "no_hints =
     [(quiet ''t1'' ''u1'', said ''Dana'' (Some ''Let us start'') None),
      (quiet ''t2'' ''u2'', said ''Dana'' (Some ''Agenda first'') None)]"


text \<open>A lifecycle notification for a bot.\<close>

definition status_event :: "string \<Rightarrow> string \<Rightarrow> webhook_event" where
  "status_event botId st = \<lparr>ev_bot_id = Some botId, ev_status = Some st\<rparr>"


text \<open>A request to \<^verbatim>\<open>/api/create-bot\<close> whose \<^verbatim>\<open>client_id\<close> is past the largest
  \<^verbatim>\<open>BIGINT\<close>, and a run in which Recall.ai creates the bot \<open>bot-2\<close>.\<close>

definition big_client_request :: create_request where
  "big_client_request = \<lparr>req_meeting_url = Some ''https://call/xyz'',
     req_client_id = Some 9223372036854775808, req_meeting_name = Some ''Retro''\<rparr>"

definition small_client_request :: create_request where
  "small_client_request = \<lparr>req_meeting_url = Some ''https://call/xyz'',
     req_client_id = Some 8, req_meeting_name = Some ''Retro''\<rparr>"

definition bot_2_created :: world where
  "bot_2_created = world_at ''t5'' ''T'' (RecallOk (JObj [(''id'', JStr ''bot-2'')])) TranscriptThrows"

text \<open>The race in which both calls run their \<^verbatim>\<open>SELECT\<close> before either runs its
  \<^verbatim>\<open>INSERT\<close>.\<close>

definition both_select_first :: "bool list" where
  "both_select_first = [True, False, True, False]"

text \<open>What a call has returned is a row of the store for that block and speaker.\<close>

definition returned_ok :: "'t database \<Rightarrow> uuid \<Rightarrow> string option \<Rightarrow> call \<Rightarrow> bool" where
  "returned_ok db b s c = (case c of Returned a \<Rightarrow> a \<in> set (select_attendees db b s) | _ \<Rightarrow> True)"

section \<open>Resolving a speaker\<close>

lemma insert_attendee_Inr:
  assumes "insert_attendee w db b s story = (Inr a, db1)"
  shows "\<exists>n. s = Some n \<and> select_attendees db b s = []
     \<and> a = \<lparr>a_id = block_attendees_id_seq db + 1, a_block_id = Some b, a_name = n,
            a_user_id = None, a_story = Some story, a_speaking_time_seconds = Some 0,
            a_created_at = Some (db_now w), a_updated_at = Some (db_now w)\<rparr>
     \<and> db1 = db\<lparr>block_attendees_id_seq := block_attendees_id_seq db + 1,
                block_attendees := block_attendees db @ [a]\<rparr>"
  using assms
  by (auto simp: insert_attendee_def Let_def split: option.splits if_splits)

text \<open>
  C7. When \<^verbatim>\<open>getOrCreateAttendee\<close> returns an attendee for a block and a speaker, it
  is a row of that block with that name, and a second call for the same pair, at any
  later time, returns the same row and leaves the store as it is. When the first call found no row, the row it returns is the one it
  appended to \<^verbatim>\<open>block_attendees\<close>: its story is the speaker's name followed by
  \<^verbatim>\<open> joined the meeting.\<close>, its speaking time is 0 and it has no user.
\<close>

theorem getOrCreateAttendee_twice:
  assumes "getOrCreateAttendee w db b s = (Inr a, db1)"
  shows "getOrCreateAttendee w' db1 b s = (Inr a, db1)
     \<and> a_block_id a = Some b \<and> Some (a_name a) = s
     \<and> (select_attendees db b s \<noteq> [] \<longrightarrow> db1 = db)
     \<and> (select_attendees db b s = [] \<longrightarrow>
          block_attendees db1 = block_attendees db @ [a]
          \<and> a_block_id a = Some b \<and> Some (a_name a) = s
          \<and> a_story a = Some (a_name a @ '' joined the meeting.'')
          \<and> a_speaking_time_seconds a = Some 0 \<and> a_user_id a = None)"
proof (cases "select_attendees db b s")
  case (Cons x xs)
  with assms have "a = x" "db1 = db" by (simp_all add: getOrCreateAttendee_def)
  moreover from Cons have "x \<in> set (select_attendees db b s)" by simp
  then have "a_block_id x = Some b \<and> Some (a_name x) = s"
    by (simp add: select_attendees_def)
  ultimately show ?thesis using Cons by (simp add: getOrCreateAttendee_def)
next
  case Nil
  with assms have ins: "insert_attendee w db b s (story_template s) = (Inr a, db1)"
    by (simp add: getOrCreateAttendee_def)
  from insert_attendee_Inr[OF ins] obtain n where n: "s = Some n"
    and a: "a = \<lparr>a_id = block_attendees_id_seq db + 1, a_block_id = Some b, a_name = n,
            a_user_id = None, a_story = Some (story_template s), a_speaking_time_seconds = Some 0,
            a_created_at = Some (db_now w), a_updated_at = Some (db_now w)\<rparr>"
    and db1: "db1 = db\<lparr>block_attendees_id_seq := block_attendees_id_seq db + 1,
                block_attendees := block_attendees db @ [a]\<rparr>"
    by blast
  have sel: "select_attendees db1 b s = [a]"
    using Nil n a by (simp add: db1 select_attendees_def)
  show ?thesis using Nil sel n a db1
    by (simp add: getOrCreateAttendee_def story_template_def)
qed

theorem getOrCreateAttendee_twice_witness:
  "getOrCreateAttendee (quiet ''t1'' ''u1'') (store_S :: turn database) ''S'' (Some ''Dana'')
     = (Inr dana, store_Dana)
   \<and> getOrCreateAttendee (quiet ''t2'' ''u2'') (store_Dana :: turn database) ''S'' (Some ''Dana'')
     = (Inr dana, store_Dana)
   \<and> block_attendees (store_Dana :: turn database) = block_attendees (store_S :: turn database) @ [dana]
   \<and> a_story dana = Some ''Dana joined the meeting.''
   \<and> a_speaking_time_seconds dana = Some 0 \<and> a_user_id dana = None"
proof -
  have first: "getOrCreateAttendee (quiet ''t1'' ''u1'') (store_S :: turn database) ''S'' (Some ''Dana'')
     = (Inr dana, store_Dana)"
    by code_simp
  have none: "select_attendees (store_S :: turn database) ''S'' (Some ''Dana'') = []"
    by code_simp
  from getOrCreateAttendee_twice[OF first, of "quiet ''t2'' ''u2''"] first none
  show ?thesis by (simp add: dana_def)
qed

section \<open>Appending a turn, PostgreSQL variant\<close>

lemma sql_max_Max: "sql_max xs = (if xs = [] then None else Some (Max (set xs)))"
  by (induction xs) (auto split: option.splits)

lemma insert_attendee_frame:
  "insert_attendee w db b s story = (r, db1) \<Longrightarrow>
     block_turns db1 = block_turns db \<and> turns db1 = turns db \<and> blocks db1 = blocks db
     \<and> block_meetings db1 = block_meetings db"
  unfolding insert_attendee_def Let_def
  by (cases s) (auto split: if_splits)

lemma getOrCreateAttendee_frame:
  "getOrCreateAttendee w db b s = (r, db1) \<Longrightarrow>
     block_turns db1 = block_turns db \<and> turns db1 = turns db \<and> blocks db1 = blocks db
     \<and> block_meetings db1 = block_meetings db"
  unfolding getOrCreateAttendee_def
  by (cases "select_attendees db b s") (auto dest: insert_attendee_frame)

lemma insert_turn_Inr:
  "insert_turn w db p c st md = Inr (t, db2) \<Longrightarrow>
     block_turns db2 = block_turns db \<and> t_turn_id t = new_uuid w
     \<and> turns db2 = turns db @ [t] \<and> c = Some (t_content t)"
  unfolding insert_turn_def Let_def
  by (cases c) (auto split: if_splits)

lemma placements_same: "block_turns db2 = block_turns db \<Longrightarrow> placements db2 b = placements db b"
  by (simp add: placements_def)

lemma next_order_same: "block_turns db2 = block_turns db \<Longrightarrow> next_order db2 b = next_order db b"
  using placements_same[of db2 db b] by (simp add: next_order_def)

lemma insert_block_turn_Inr:
  "insert_block_turn w db ks b t pos = Inr db3 \<Longrightarrow>
     block_turns db3 = block_turns db @ [\<lparr>bt_block_id = b, bt_turn_id = t, bt_sequence_order = pos,
                    bt_created_at = Some (db_now w)\<rparr>] \<and> turns db3 = turns db"
  unfolding insert_block_turn_def
  by (auto split: if_splits)

text \<open>The runs of the handler, one case per exit.\<close>

lemma pg_on_message_cases:
  obtains
    (no_meeting) "select_meeting db (tr_bot_id tr) = None"
      "pg_on_message w db tr = (NoMeetingFound, db)"
  | (attendee_error) m e db1 where "select_meeting db (tr_bot_id tr) = Some m"
      "getOrCreateAttendee w db (m_block_id m) (tr_speaker tr) = (Inl e, db1)"
      "pg_on_message w db tr = (ProcessingError e, db1)"
  | (turn_error) m a e db1 where "select_meeting db (tr_bot_id tr) = Some m"
      "getOrCreateAttendee w db (m_block_id m) (tr_speaker tr) = (Inr a, db1)"
      "insert_turn w db1 (Some (a_id a)) (tr_text tr) ''recall_bot'' (turn_metadata w tr) = Inl e"
      "pg_on_message w db tr = (ProcessingError e, db1)"
  | (order_error) m a t e db1 db2 where "select_meeting db (tr_bot_id tr) = Some m"
      "getOrCreateAttendee w db (m_block_id m) (tr_speaker tr) = (Inr a, db1)"
      "insert_turn w db1 (Some (a_id a)) (tr_text tr) ''recall_bot'' (turn_metadata w tr) = Inr (t, db2)"
      "next_order db2 (m_block_id m) = Inl e"
      "pg_on_message w db tr = (ProcessingError e, db2)"
  | (link_error) m a t pos e db1 db2 where "select_meeting db (tr_bot_id tr) = Some m"
      "getOrCreateAttendee w db (m_block_id m) (tr_speaker tr) = (Inr a, db1)"
      "insert_turn w db1 (Some (a_id a)) (tr_text tr) ''recall_bot'' (turn_metadata w tr) = Inr (t, db2)"
      "next_order db2 (m_block_id m) = Inr pos"
      "insert_block_turn w db2 (turn_ids db2) (m_block_id m) (t_turn_id t) pos = Inl e"
      "pg_on_message w db tr = (ProcessingError e, db2)"
  | (linked) m a t pos db1 db2 db3 where "select_meeting db (tr_bot_id tr) = Some m"
      "getOrCreateAttendee w db (m_block_id m) (tr_speaker tr) = (Inr a, db1)"
      "insert_turn w db1 (Some (a_id a)) (tr_text tr) ''recall_bot'' (turn_metadata w tr) = Inr (t, db2)"
      "next_order db2 (m_block_id m) = Inr pos"
      "insert_block_turn w db2 (turn_ids db2) (m_block_id m) (t_turn_id t) pos = Inr db3"
      "pg_on_message w db tr = (Linked (m_block_id m) (t_turn_id t) pos, db3)"
proof (cases "select_meeting db (tr_bot_id tr)")
  case None
  then show ?thesis using no_meeting by (simp add: pg_on_message_def)
next
  case (Some m)
  show ?thesis
  proof (cases "getOrCreateAttendee w db (m_block_id m) (tr_speaker tr)")
    case (Pair r db1)
    show ?thesis
    proof (cases r)
      case (Inl e)
      then show ?thesis using Some Pair attendee_error by (simp add: pg_on_message_def)
    next
      case (Inr a)
      note a = this
      show ?thesis
      proof (cases "insert_turn w db1 (Some (a_id a)) (tr_text tr) ''recall_bot'' (turn_metadata w tr)")
        case (Inl e)
        then show ?thesis using Some Pair a turn_error by (simp add: pg_on_message_def)
      next
        case (Inr p)
        then obtain t db2 where p: "p = (t, db2)" by (cases p)
        note ins = Inr[unfolded p]
        show ?thesis
        proof (cases "next_order db2 (m_block_id m)")
          case (Inl e)
          then show ?thesis using Some Pair a ins order_error by (simp add: pg_on_message_def)
        next
          case (Inr pos)
          note pos = this
          show ?thesis
          proof (cases "insert_block_turn w db2 (turn_ids db2) (m_block_id m) (t_turn_id t) pos")
            case (Inl e)
            then show ?thesis using Some Pair a ins pos link_error by (simp add: pg_on_message_def)
          next
            case (Inr db3)
            then show ?thesis using Some Pair a ins pos linked by (simp add: pg_on_message_def)
          qed
        qed
      qed
    qed
  qed
qed


lemma placements_snoc:
  "block_turns db' = block_turns db @ [r] \<Longrightarrow>
     placements db' c = placements db c @ (if bt_block_id r = c then [bt_sequence_order r] else [])"
  by (simp add: placements_def)

lemma pg_on_message_placements:
  assumes "pg_on_message w db tr = (out, db')"
  shows "placements db' c = placements db c @ linked_at c out"
proof (cases rule: pg_on_message_cases[of db tr w])
  case no_meeting
  with assms have "out = NoMeetingFound" "db' = db" by simp_all
  then show ?thesis by simp
next
  case (attendee_error m e db1)
  with assms have "out = ProcessingError e" "db' = db1" by simp_all
  with getOrCreateAttendee_frame[OF attendee_error(2)] show ?thesis
    by (simp add: placements_def)
next
  case (turn_error m a e db1)
  with assms have "out = ProcessingError e" "db' = db1" by simp_all
  with getOrCreateAttendee_frame[OF turn_error(2)] show ?thesis
    by (simp add: placements_def)
next
  case (order_error m a t e db1 db2)
  with assms have "out = ProcessingError e" "db' = db2" by simp_all
  with getOrCreateAttendee_frame[OF order_error(2)] insert_turn_Inr[OF order_error(3)]
  show ?thesis by (simp add: placements_def)
next
  case (link_error m a t pos e db1 db2)
  with assms have "out = ProcessingError e" "db' = db2" by simp_all
  with getOrCreateAttendee_frame[OF link_error(2)] insert_turn_Inr[OF link_error(3)]
  show ?thesis by (simp add: placements_def)
next
  case (linked m a t pos db1 db2 db3)
  with assms have out: "out = Linked (m_block_id m) (t_turn_id t) pos" "db' = db3" by simp_all
  have "block_turns db2 = block_turns db"
    using getOrCreateAttendee_frame[OF linked(2)] insert_turn_Inr[OF linked(3)] by simp
  then have "block_turns db3 = block_turns db @ [\<lparr>bt_block_id = m_block_id m, bt_turn_id = t_turn_id t,
      bt_sequence_order = pos, bt_created_at = Some (db_now w)\<rparr>]"
    using insert_block_turn_Inr[OF linked(5)] by simp
  from placements_snoc[OF this, of c] out show ?thesis by simp
qed

lemma pg_on_message_Linked:
  assumes "pg_on_message w db tr = (Linked b t pos, db')"
  shows "next_order db b = Inr pos"
proof (cases rule: pg_on_message_cases[of db tr w])
  case (linked m a t' pos' db1 db2 db3)
  have "block_turns db2 = block_turns db"
    using getOrCreateAttendee_frame[OF linked(2)] insert_turn_Inr[OF linked(3)] by simp
  from next_order_same[OF this] linked(4,6) assms show ?thesis by simp
qed (use assms in simp_all)

lemma next_order_Inr:
  "next_order db b = Inr pos \<Longrightarrow>
     pos = (if placements db b = [] then 1 else Max (set (placements db b)) + 1)"
  by (auto simp: next_order_def sql_max_Max Let_def split: if_splits)

lemma sorted_wrt_snoc_next:
  assumes "sorted_wrt (<) (placements db b)" "next_order db b = Inr pos"
  shows "sorted_wrt (<) (placements db b @ [pos])"
proof -
  have "\<forall>x\<in>set (placements db b). x < pos"
  proof
    fix x assume x: "x \<in> set (placements db b)"
    then have ne: "placements db b \<noteq> []" by auto
    have "x \<le> Max (set (placements db b))" using x by simp
    with next_order_Inr[OF assms(2)] ne show "x < pos" by simp
  qed
  with assms(1) show ?thesis by (simp add: sorted_wrt_append)
qed

lemma pg_on_message_sorted:
  assumes "pg_on_message w db tr = (out, db')" "sorted_wrt (<) (placements db c)"
  shows "sorted_wrt (<) (placements db' c)"
proof (cases "linked_at c out = []")
  case True
  with pg_on_message_placements[OF assms(1), of c] assms(2) show ?thesis by simp
next
  case False
  then obtain t pos where out: "out = Linked c t pos"
    by (cases out) (auto split: if_splits)
  from pg_on_message_Linked[OF assms(1)[unfolded out]] have "next_order db c = Inr pos" .
  from sorted_wrt_snoc_next[OF assms(2) this] pg_on_message_placements[OF assms(1), of c] out
  show ?thesis by simp
qed

lemma pg_run_sorted:
  "pg_run db evs = (outs, db') \<Longrightarrow> sorted_wrt (<) (placements db c) \<Longrightarrow>
     sorted_wrt (<) (placements db' c) \<and> placements db' c = placements db c @ linked_positions c outs"
proof (induction evs arbitrary: db outs db')
  case Nil
  then show ?case by (simp add: linked_positions_def)
next
  case (Cons ev evs)
  obtain w tr where ev: "ev = (w, tr)" by (cases ev)
  obtain out db1 where step: "pg_on_message w db tr = (out, db1)" by (cases "pg_on_message w db tr")
  obtain outs1 db2 where rest: "pg_run db1 evs = (outs1, db2)" by (cases "pg_run db1 evs")
  from Cons.prems(1) ev step rest have eq: "outs = out # outs1" "db' = db2" by simp_all
  have s1: "sorted_wrt (<) (placements db1 c)"
    by (rule pg_on_message_sorted[OF step Cons.prems(2)])
  from Cons.IH[OF rest s1] have ih: "sorted_wrt (<) (placements db2 c)"
    "placements db2 c = placements db1 c @ linked_positions c outs1" by blast+
  have "placements db2 c = placements db c @ linked_positions c outs"
    using ih(2) pg_on_message_placements[OF step, of c] eq(1)
    by (simp add: linked_positions_def)
  with ih(1) eq(2) show ?case by simp
qed


text \<open>
  The PostgreSQL variant: a turn that the handler links to a block gets the position one
  greater than the largest position the block's placements had before, and 1 when the
  block had none; the placement is added after the others.
\<close>

theorem pg_on_message_position:
  assumes "pg_on_message w db tr = (Linked b t pos, db')"
  shows "pos = (if placements db b = [] then 1 else Max (set (placements db b)) + 1)
     \<and> placements db' b = placements db b @ [pos]
     \<and> (\<exists>m. select_meeting db (tr_bot_id tr) = Some m \<and> m_block_id m = b)"
proof -
  have "pos = (if placements db b = [] then 1 else Max (set (placements db b)) + 1)"
    by (rule next_order_Inr[OF pg_on_message_Linked[OF assms]])
  moreover have "placements db' b = placements db b @ [pos]"
    using pg_on_message_placements[OF assms, of b] by simp
  moreover have "\<exists>m. select_meeting db (tr_bot_id tr) = Some m \<and> m_block_id m = b"
    by (cases rule: pg_on_message_cases[of db tr w]) (use assms in simp_all)
  ultimately show ?thesis by blast
qed

theorem pg_on_message_position_witness:
  "pg_on_message (quiet ''t1'' ''u1'') store_S (said ''Dana'' (Some ''Let us start'') None)
     = (Linked ''S'' ''u1'' 1, turns_1)
   \<and> placements (store_S :: turn database) ''S'' = [] \<and> placements turns_1 ''S'' = [1]
   \<and> pg_on_message (quiet ''t2'' ''u2'') turns_1 (said ''Dana'' (Some ''Agenda first'') None)
     = (Linked ''S'' ''u2'' 2, turns_2)
   \<and> placements turns_2 ''S'' = [1, 2]"
proof -
  have one: "pg_on_message (quiet ''t1'' ''u1'') store_S (said ''Dana'' (Some ''Let us start'') None)
     = (Linked ''S'' ''u1'' 1, turns_1)"
    by code_simp
  have two: "pg_on_message (quiet ''t2'' ''u2'') turns_1 (said ''Dana'' (Some ''Agenda first'') None)
     = (Linked ''S'' ''u2'' 2, turns_2)"
    by code_simp
  have p0: "placements (store_S :: turn database) ''S'' = []" by code_simp
  have p1: "placements turns_1 ''S'' = [1]" by code_simp
  from pg_on_message_position[OF one] pg_on_message_position[OF two] one two p0 p1
  show ?thesis by simp
qed

text \<open>
  C2, on the Supabase variant. The handler does not read the block's placements: the
  position is the \<^verbatim>\<open>sequence\<close> of the event. On the session \<open>S\<close>, which has no
  placement yet, an event with sequence 5 is placed at 5, not at 1, and the next one,
  with sequence 3, at 3, not at 6.
\<close>

theorem sb_on_message_position_is_hint:
  "fst (sb_run (\<lambda>row. None) store_S
     [(quiet ''t1'' ''u1'', said ''Dana'' (Some ''Let us start'') (Some 5)),
      (quiet ''t2'' ''u2'', said ''Dana'' (Some ''Agenda first'') (Some 3))])
   = [SbLinked ''S'' ''u1'' 5, SbLinked ''S'' ''u2'' 3]"
  by code_simp

text \<open>
  The PostgreSQL variant. Messages are handled one after the other, for any sessions in
  any order. If the positions of a block's placements were strictly
  increasing in insertion order before, they are afterwards; they are then pairwise
  different; and the run added to them exactly the positions of the turns it linked to
  that block, one for each such turn, in the order of the messages.
\<close>

theorem pg_run_positions_increasing:
  assumes "pg_run db evs = (outs, db')" "sorted_wrt (<) (placements db c)"
  shows "sorted_wrt (<) (placements db' c) \<and> distinct (placements db' c)
     \<and> placements db' c = placements db c @ linked_positions c outs
     \<and> length (placements db' c) = length (placements db c) + length (linked_positions c outs)"
proof -
  from pg_run_sorted[OF assms] have s: "sorted_wrt (<) (placements db' c)"
    and e: "placements db' c = placements db c @ linked_positions c outs" by blast+
  from s have "distinct (placements db' c)" by (simp add: strict_sorted_iff)
  with s e show ?thesis by simp
qed

theorem pg_run_positions_increasing_witness:
  "fst (pg_run store_ST interleaved)
     = [Linked ''S'' ''u1'' 1, Linked ''T'' ''u2'' 1, Linked ''S'' ''u3'' 2,
        Linked ''T'' ''u4'' 2, Linked ''S'' ''u5'' 3]
   \<and> sorted_wrt (<) (placements (store_ST :: turn database) ''S'')
   \<and> placements (snd (pg_run store_ST interleaved)) ''S'' = [1, 2, 3]
   \<and> sorted_wrt (<) (placements (snd (pg_run store_ST interleaved)) ''S'')
   \<and> distinct (placements (snd (pg_run store_ST interleaved)) ''S'')"
proof -
  have outs: "fst (pg_run store_ST interleaved)
     = [Linked ''S'' ''u1'' 1, Linked ''T'' ''u2'' 1, Linked ''S'' ''u3'' 2,
        Linked ''T'' ''u4'' 2, Linked ''S'' ''u5'' 3]"
    by code_simp
  have run: "pg_run store_ST interleaved
     = ([Linked ''S'' ''u1'' 1, Linked ''T'' ''u2'' 1, Linked ''S'' ''u3'' 2,
         Linked ''T'' ''u4'' 2, Linked ''S'' ''u5'' 3], snd (pg_run store_ST interleaved))"
    using outs by (metis prod.collapse)
  have before: "placements (store_ST :: turn database) ''S'' = []"
    by code_simp
  then have inc: "sorted_wrt (<) (placements (store_ST :: turn database) ''S'')"
    by simp
  have "sorted_wrt (<) (placements (snd (pg_run store_ST interleaved)) ''S'')
     \<and> distinct (placements (snd (pg_run store_ST interleaved)) ''S'')
     \<and> placements (snd (pg_run store_ST interleaved)) ''S'' = [1, 2, 3]"
    using pg_run_positions_increasing[OF run inc] before
    by (simp add: linked_positions_def)
  with outs inc show ?thesis by blast
qed

text \<open>
  C1, on the Supabase variant. Two turn events of one session that carry no
  \<^verbatim>\<open>sequence\<close>, handled one after the other: both turns are placed at position 0, so
  the positions of the session are neither pairwise different nor increasing.
\<close>

theorem sb_run_positions_repeat:
  "fst (sb_run (\<lambda>row. None) store_S no_hints) = [SbLinked ''S'' ''u1'' 0, SbLinked ''S'' ''u2'' 0]
   \<and> placements (snd (sb_run (\<lambda>row. None) store_S no_hints)) ''S'' = [0, 0]
   \<and> \<not> distinct (placements (snd (sb_run (\<lambda>row. None) store_S no_hints)) ''S'')
   \<and> \<not> sorted_wrt (<) (placements (snd (sb_run (\<lambda>row. None) store_S no_hints)) ''S'')"
proof -
  have p: "placements (snd (sb_run (\<lambda>row. None) store_S no_hints)) ''S'' = [0, 0]"
    by code_simp
  have o: "fst (sb_run (\<lambda>row. None) store_S no_hints) = [SbLinked ''S'' ''u1'' 0, SbLinked ''S'' ''u2'' 0]"
    by code_simp
  show ?thesis unfolding p o by simp
qed

lemma insert_turn_no_text:
  "insert_turn w db p None st md = Inl e \<Longrightarrow> e = NotNullViolation"
  by (simp add: insert_turn_def)

text \<open>
  C3, as the PostgreSQL variant has it. A turn event without text adds no row to
  \<^verbatim>\<open>turns\<close> and none to \<^verbatim>\<open>block_turns\<close>: the run ends with the meeting not found
  or in the \<^verbatim>\<open>catch\<close>, and when the meeting and the attendee were found the error
  caught is the rejection by \<^verbatim>\<open>content TEXT NOT NULL\<close>. (The speaker's attendee is
  resolved before the turn is inserted, so an attendee row may have been added.)
\<close>

theorem pg_on_message_missing_text:
  assumes "tr_text tr = None" "pg_on_message w db tr = (out, db')"
  shows "turns db' = turns db \<and> block_turns db' = block_turns db
     \<and> (out = NoMeetingFound \<or> (\<exists>e. out = ProcessingError e))
     \<and> (\<forall>m a db1. select_meeting db (tr_bot_id tr) = Some m
            \<and> getOrCreateAttendee w db (m_block_id m) (tr_speaker tr) = (Inr a, db1)
          \<longrightarrow> out = ProcessingError NotNullViolation)"
proof (cases rule: pg_on_message_cases[of db tr w])
  case no_meeting
  with assms(2) show ?thesis by simp
next
  case (attendee_error m e db1)
  with assms(2) have "out = ProcessingError e" "db' = db1" by simp_all
  with getOrCreateAttendee_frame[OF attendee_error(2)] attendee_error(1,2) show ?thesis by simp
next
  case (turn_error m a e db1)
  with assms(2) have o: "out = ProcessingError e" "db' = db1" by simp_all
  from turn_error(3) assms(1) have "e = NotNullViolation"
    by (simp add: insert_turn_no_text)
  with o getOrCreateAttendee_frame[OF turn_error(2)] show ?thesis by simp
next
  case (order_error m a t e db1 db2)
  from insert_turn_Inr[OF order_error(3)] assms(1) show ?thesis by simp
next
  case (link_error m a t pos e db1 db2)
  from insert_turn_Inr[OF link_error(3)] assms(1) show ?thesis by simp
next
  case (linked m a t pos db1 db2 db3)
  from insert_turn_Inr[OF linked(3)] assms(1) show ?thesis by simp
qed

theorem pg_on_message_missing_text_witness:
  "tr_text (said ''Dana'' None None) = None
   \<and> pg_on_message (quiet ''t1'' ''u1'') store_S (said ''Dana'' None None)
       = (ProcessingError NotNullViolation, store_Dana)
   \<and> turns (store_Dana :: turn database) = turns (store_S :: turn database)
   \<and> block_turns (store_Dana :: turn database) = block_turns (store_S :: turn database)
   \<and> block_attendees (store_Dana :: turn database) = [dana]"
proof -
  have t: "tr_text (said ''Dana'' None None) = None" by (simp add: said_def)
  have r: "pg_on_message (quiet ''t1'' ''u1'') store_S (said ''Dana'' None None)
       = (ProcessingError NotNullViolation, store_Dana)"
    by code_simp
  from pg_on_message_missing_text[OF t r] t r show ?thesis by (simp add: store_Dana_def)
qed

theorem pg_on_message_empty_text_counterexample:
  "fst (pg_on_message (quiet ''t1'' ''u1'') store_S (said ''Dana'' (Some '''') None))
     = Linked ''S'' ''u1'' 1
   \<and> map t_content (turns (snd (pg_on_message (quiet ''t1'' ''u1'') store_S
         (said ''Dana'' (Some '''') None)))) = ['''']
   \<and> map bt_turn_id (block_turns (snd (pg_on_message (quiet ''t1'' ''u1'') store_S
         (said ''Dana'' (Some '''') None)))) = [''u1'']"
  by code_simp

section \<open>The two variants of the message handler\<close>

lemma sb_on_message_Linked:
  assumes "sb_on_message rejects w db tr = (SbLinked b t pos, db')"
  shows "pos = sequence_or_0 tr"
proof (cases "sb_select_meeting db (tr_bot_id tr)")
  case None
  with assms show ?thesis by (simp add: sb_on_message_def)
next
  case (Some m)
  obtain r db1 where att: "sb_getOrCreateAttendee w db (m_block_id m) (tr_speaker tr) = (r, db1)"
    by (cases "sb_getOrCreateAttendee w db (m_block_id m) (tr_speaker tr)")
  show ?thesis
  proof (cases r)
    case None
    with assms Some att show ?thesis by (simp add: sb_on_message_def)
  next
    case (Some a)
    note a = this
    show ?thesis
    proof (cases "sb_insert_turn rejects w db1 (Some (a_id a)) (tr_text tr)
                       ''recall_bot'' (or_else (tr_timestamp tr) (js_now w)) 1")
      case (Inl e)
      with assms \<open>sb_select_meeting db (tr_bot_id tr) = Some m\<close> att a show ?thesis
        by (simp add: sb_on_message_def)
    next
      case (Inr p)
      obtain turn db2 where p: "p = (turn, db2)" by (cases p)
      show ?thesis
      proof (cases "insert_block_turn w db2 (sb_turn_ids db2) (m_block_id m)
                            (st_turn_id turn) (sequence_or_0 tr)")
        case (Inl e)
        with assms \<open>sb_select_meeting db (tr_bot_id tr) = Some m\<close> att a Inr p show ?thesis
          by (simp add: sb_on_message_def)
      next
        case (Inr db3)
        with assms \<open>sb_select_meeting db (tr_bot_id tr) = Some m\<close> att a
          \<open>sb_insert_turn rejects w db1 (Some (a_id a)) (tr_text tr)
                       ''recall_bot'' (or_else (tr_timestamp tr) (js_now w)) 1 = Inr p\<close> p
        show ?thesis by (simp add: sb_on_message_def)
      qed
    qed
  qed
qed

text \<open>
  For one event that both variants link to a block, each on its own store: the Supabase variant records the event's sequence hint, 0 when the hint is
  absent, and the PostgreSQL variant one more than the largest position of the block in
  its store, 1 when there is none. The two positions are equal exactly when the hint
  (or 0) is that next position.
\<close>

theorem variants_positions:
  assumes "pg_on_message w db tr = (Linked b t pos, db')"
    and "sb_on_message rejects w2 sdb tr = (SbLinked b2 t2 pos2, sdb')"
  shows "pos2 = (case tr_sequence tr of None \<Rightarrow> 0 | Some n \<Rightarrow> n)
     \<and> pos = (if placements db b = [] then 1 else Max (set (placements db b)) + 1)
     \<and> (pos = pos2) =
         ((case tr_sequence tr of None \<Rightarrow> 0 | Some n \<Rightarrow> n)
            = (if placements db b = [] then 1 else Max (set (placements db b)) + 1))"
proof -
  have "pos2 = (case tr_sequence tr of None \<Rightarrow> 0 | Some n \<Rightarrow> n)"
    using sb_on_message_Linked[OF assms(2)]
    by (simp add: sequence_or_0_def split: option.splits)
  moreover have "pos = (if placements db b = [] then 1 else Max (set (placements db b)) + 1)"
    by (rule next_order_Inr[OF pg_on_message_Linked[OF assms(1)]])
  ultimately show ?thesis by auto
qed

theorem variants_positions_witness:
  "pg_on_message (quiet ''t1'' ''u1'') store_S (said ''Dana'' (Some ''Let us start'') (Some 1))
     = (Linked ''S'' ''u1'' 1,
        snd (pg_on_message (quiet ''t1'' ''u1'') store_S (said ''Dana'' (Some ''Let us start'') (Some 1))))
   \<and> sb_on_message (\<lambda>row. None) (quiet ''t1'' ''u1'') store_S (said ''Dana'' (Some ''Let us start'') (Some 1))
     = (SbLinked ''S'' ''u1'' 1,
        snd (sb_on_message (\<lambda>row. None) (quiet ''t1'' ''u1'') store_S
               (said ''Dana'' (Some ''Let us start'') (Some 1))))
   \<and> tr_sequence (said ''Dana'' (Some ''Let us start'') (Some 1)) = Some 1
   \<and> placements (store_S :: turn database) ''S'' = []"
proof -
  have f1: "fst (pg_on_message (quiet ''t1'' ''u1'') store_S (said ''Dana'' (Some ''Let us start'') (Some 1)))
     = Linked ''S'' ''u1'' 1"
    by code_simp
  have f2: "fst (sb_on_message (\<lambda>row. None) (quiet ''t1'' ''u1'') store_S
       (said ''Dana'' (Some ''Let us start'') (Some 1))) = SbLinked ''S'' ''u1'' 1"
    by code_simp
  have r1: "pg_on_message (quiet ''t1'' ''u1'') store_S (said ''Dana'' (Some ''Let us start'') (Some 1))
     = (Linked ''S'' ''u1'' 1,
        snd (pg_on_message (quiet ''t1'' ''u1'') store_S (said ''Dana'' (Some ''Let us start'') (Some 1))))"
    using f1 by (metis prod.collapse)
  have r2: "sb_on_message (\<lambda>row. None) (quiet ''t1'' ''u1'') store_S (said ''Dana'' (Some ''Let us start'') (Some 1))
     = (SbLinked ''S'' ''u1'' 1,
        snd (sb_on_message (\<lambda>row. None) (quiet ''t1'' ''u1'') store_S
               (said ''Dana'' (Some ''Let us start'') (Some 1))))"
    using f2 by (metis prod.collapse)
  have h: "tr_sequence (said ''Dana'' (Some ''Let us start'') (Some 1)) = Some 1"
    by (simp add: said_def)
  have p: "placements (store_S :: turn database) ''S'' = []" by code_simp
  from variants_positions[OF r1 r2] r1 r2 h p show ?thesis by blast
qed

text \<open>
  C9. The same event, without a \<^verbatim>\<open>sequence\<close>, on the same store: the PostgreSQL
  variant places the turn at position 1, the Supabase variant at position 0.
\<close>

theorem variants_differ:
  "fst (pg_on_message (quiet ''t1'' ''u1'') store_S (said ''Dana'' (Some ''Let us start'') None))
     = Linked ''S'' ''u1'' 1
   \<and> fst (sb_on_message (\<lambda>row. None) (quiet ''t1'' ''u1'') store_S
       (said ''Dana'' (Some ''Let us start'') None)) = SbLinked ''S'' ''u1'' 0"
  by code_simp

section \<open>Lifecycle events\<close>

lemma bind_params_updateData:
  "bind_params reading (updateData w event) =
     (if ev_status event = Some ''completed'' then
        (case recall_transcript w of
           TranscriptOk j \<Rightarrow>
             (case bind_jsonb reading j of
                Inl e \<Rightarrow> Inl e
              | Inr v \<Rightarrow> Inr [Col_status (ev_status event), Col_updated_at (js_now w),
                              Col_ended_at (js_now2 w), Col_full_transcript v])
         | TranscriptNotOk st \<Rightarrow>
             Inr [Col_status (ev_status event), Col_updated_at (js_now w), Col_ended_at (js_now2 w)]
         | TranscriptThrows \<Rightarrow>
             Inr [Col_status (ev_status event), Col_updated_at (js_now w), Col_ended_at (js_now2 w)])
      else Inr [Col_status (ev_status event), Col_updated_at (js_now w)])"
  by (simp add: updateData_def split: transcript_response.splits sum.splits)

lemma webhook_other:
  assumes "ev_status event \<noteq> Some ''completed''" "ev_bot_id event = Some botId" "botId \<noteq> []"
  shows "webhook w db event =
     (SendText 200 ''OK'',
      db\<lparr>block_meetings :=
           map (\<lambda>m. if m_recall_bot_id m = Some botId
                     then m\<lparr>m_status := ev_status event, m_updated_at := Some (db_now w)\<rparr> else m)
             (block_meetings db)\<rparr>)"
  using assms
  by (simp add: webhook_def update_block_meetings_def bind_params_updateData update_row_def)

lemma webhook_cases:
  obtains
    (no_bot) "\<not> truthy (ev_bot_id event)" "webhook w db event = (SendText 200 ''OK'', db)"
  | (rejected) botId e where "ev_bot_id event = Some botId" "botId \<noteq> []"
      "bind_params (jsonb_in w) (updateData w event) = Inl e"
      "webhook w db event = (SendText 500 ''Error processing webhook'', db)"
  | (updated) botId cols where "ev_bot_id event = Some botId" "botId \<noteq> []"
      "bind_params (jsonb_in w) (updateData w event) = Inr cols"
      "webhook w db event =
         (SendText 200 ''OK'',
          db\<lparr>block_meetings :=
               map (\<lambda>m. if m_recall_bot_id m = Some botId then update_row w cols m else m)
                 (block_meetings db)\<rparr>)"
proof (cases "ev_bot_id event")
  case None
  then show ?thesis using no_bot by (simp add: webhook_def truthy_def)
next
  case (Some botId)
  show ?thesis
  proof (cases "botId = []")
    case True
    with Some show ?thesis using no_bot by (simp add: webhook_def truthy_def)
  next
    case False
    show ?thesis
    proof (cases "bind_params (jsonb_in w) (updateData w event)")
      case (Inl e)
      with Some False show ?thesis using rejected
        by (simp add: webhook_def update_block_meetings_def)
    next
      case (Inr cols)
      with Some False show ?thesis using updated
        by (simp add: webhook_def update_block_meetings_def)
    qed
  qed
qed


lemma webhook_tables:
  "blocks (snd (webhook w db event)) = blocks db
   \<and> block_attendees (snd (webhook w db event)) = block_attendees db
   \<and> block_attendees_id_seq (snd (webhook w db event)) = block_attendees_id_seq db
   \<and> turns (snd (webhook w db event)) = turns db
   \<and> block_turns (snd (webhook w db event)) = block_turns db
   \<and> length (block_meetings (snd (webhook w db event))) = length (block_meetings db)"
  by (cases rule: webhook_cases[of event w db]) simp_all


text \<open>
  C10. A lifecycle event with a status other than \<^verbatim>\<open>completed\<close> and a bot id: the
  rows of \<^verbatim>\<open>block_meetings\<close> with that bot id get the event's status and the
  store's time as \<^verbatim>\<open>updated_at\<close> and keep every other column; every other row of
  the table and every other table is as before.
\<close>

theorem webhook_frame:
  assumes "ev_status event \<noteq> Some ''completed''" "ev_bot_id event = Some botId" "botId \<noteq> []"
  shows "blocks (snd (webhook w db event)) = blocks db
     \<and> block_attendees (snd (webhook w db event)) = block_attendees db
     \<and> turns (snd (webhook w db event)) = turns db
     \<and> block_turns (snd (webhook w db event)) = block_turns db
     \<and> list_all2
         (\<lambda>m m'. m_block_id m' = m_block_id m \<and> m_recall_bot_id m' = m_recall_bot_id m
            \<and> m_meeting_url m' = m_meeting_url m
            \<and> m_invited_by_user_id m' = m_invited_by_user_id m
            \<and> m_full_transcript m' = m_full_transcript m
            \<and> m_started_at m' = m_started_at m \<and> m_ended_at m' = m_ended_at m
            \<and> m_created_at m' = m_created_at m
            \<and> (if m_recall_bot_id m = Some botId
                then m' = m\<lparr>m_status := ev_status event, m_updated_at := Some (db_now w)\<rparr>
                else m' = m))
         (block_meetings db) (block_meetings (snd (webhook w db event)))"
proof -
  have bm: "block_meetings (snd (webhook w db event))
      = map (\<lambda>m. if m_recall_bot_id m = Some botId
                  then m\<lparr>m_status := ev_status event, m_updated_at := Some (db_now w)\<rparr> else m)
          (block_meetings db)"
    by (simp add: webhook_other[OF assms])
  have "list_all2
         (\<lambda>m m'. m_block_id m' = m_block_id m \<and> m_recall_bot_id m' = m_recall_bot_id m
            \<and> m_meeting_url m' = m_meeting_url m
            \<and> m_invited_by_user_id m' = m_invited_by_user_id m
            \<and> m_full_transcript m' = m_full_transcript m
            \<and> m_started_at m' = m_started_at m \<and> m_ended_at m' = m_ended_at m
            \<and> m_created_at m' = m_created_at m
            \<and> (if m_recall_bot_id m = Some botId
                then m' = m\<lparr>m_status := ev_status event, m_updated_at := Some (db_now w)\<rparr>
                else m' = m))
         (block_meetings db) (block_meetings (snd (webhook w db event)))"
    unfolding bm by (simp add: list_all2_map2 list_all2_same)
  with webhook_tables[of w db event] show ?thesis by simp
qed

theorem webhook_frame_witness:
  "ev_status (status_event ''bot-1'' ''in_progress'') \<noteq> Some ''completed''
   \<and> ev_bot_id (status_event ''bot-1'' ''in_progress'') = Some ''bot-1''
   \<and> block_meetings (snd (webhook (quiet ''t9'' ''u9'') (store_ST :: turn database)
         (status_event ''bot-1'' ''in_progress'')))
       = [meeting_S\<lparr>m_status := Some ''in_progress'', m_updated_at := Some ''t9''\<rparr>, meeting_T]
   \<and> blocks (snd (webhook (quiet ''t9'' ''u9'') (store_ST :: turn database)
         (status_event ''bot-1'' ''in_progress''))) = [block_S, block_T]"
proof -
  have h1: "ev_status (status_event ''bot-1'' ''in_progress'') \<noteq> Some ''completed''"
    by (simp add: status_event_def)
  have h2: "ev_bot_id (status_event ''bot-1'' ''in_progress'') = Some ''bot-1''"
    by (simp add: status_event_def)
  have h3: "''bot-1'' \<noteq> []" by simp
  have bm: "block_meetings (store_ST :: turn database) = [meeting_S, meeting_T]"
    and bl: "blocks (store_ST :: turn database) = [block_S, block_T]"
    by (simp_all add: store_ST_def)
  have ids: "m_recall_bot_id meeting_S = Some ''bot-1''" "m_recall_bot_id meeting_T \<noteq> Some ''bot-1''"
    by (simp_all add: meeting_S_def meeting_T_def)
  from webhook_frame[OF h1 h2 h3, of "quiet ''t9'' ''u9''" "store_ST :: turn database"]
  have "blocks (snd (webhook (quiet ''t9'' ''u9'') (store_ST :: turn database)
         (status_event ''bot-1'' ''in_progress''))) = [block_S, block_T]
     \<and> block_meetings (snd (webhook (quiet ''t9'' ''u9'') (store_ST :: turn database)
         (status_event ''bot-1'' ''in_progress'')))
       = [meeting_S\<lparr>m_status := Some ''in_progress'', m_updated_at := Some ''t9''\<rparr>, meeting_T]"
    unfolding bm bl using ids
    by (auto simp: list_all2_Cons1 quiet_def world_at_def status_event_def)
  with h1 h2 show ?thesis by simp
qed













section \<open>Creating a session\<close>

lemma pg_create_bot_keeps_block:
  assumes "truthy (req_meeting_url req)" "recall_create w = RecallOk botData"
    and "insert_block w db (or_else (req_meeting_name req) (''Meeting '' @ js_now w))
           (''Meeting from '' @ or_else (req_meeting_url req) []) ''meeting''
           (JObj [(''created_by'', JStr ''recall_bot'')]) = Inr (block, db1)"
    and "insert_block_meeting w db1 (b_block_id block) (json_id botData)
           (or_else (req_meeting_url req) []) (req_client_id req) ''joining'' = Inl e"
  shows "pg_create_bot w db req = (SendError 500 ''Internal server error'', db1)
     \<and> blocks db1 = blocks db @ [block] \<and> block_meetings db1 = block_meetings db"
proof -
  have "pg_create_bot w db req = (SendError 500 ''Internal server error'', db1)"
    using assms by (simp add: pg_create_bot_def)
  moreover have "blocks db1 = blocks db @ [block] \<and> block_meetings db1 = block_meetings db"
    using assms(3) by (auto simp: insert_block_def Let_def split: if_splits)
  ultimately show ?thesis by simp
qed

text \<open>The route on a request the store accepts: the block and its meeting record are
  both there afterwards.\<close>

lemma pg_create_bot_creates:
  "map b_block_id (blocks (snd (pg_create_bot bot_2_created (store_S :: turn database)
        small_client_request))) = [''S'', ''T'']
   \<and> map m_block_id (block_meetings (snd (pg_create_bot bot_2_created (store_S :: turn database)
        small_client_request))) = [''S'', ''T'']
   \<and> map m_status (block_meetings (snd (pg_create_bot bot_2_created (store_S :: turn database)
        small_client_request))) = [Some ''joining'', Some ''joining'']
   \<and> orphan_blocks (snd (pg_create_bot bot_2_created (store_S :: turn database)
        small_client_request)) = []"
  by code_simp

text \<open>
  C5, on the PostgreSQL variant. The block is inserted, the insert of the meeting record
  is rejected (\<^verbatim>\<open>client_id\<close> is no \<^verbatim>\<open>BIGINT\<close>), the route answers 500, and the
  block \<open>T\<close> stays in \<^verbatim>\<open>blocks\<close> with no meeting record: nothing deletes it.
\<close>

theorem pg_create_bot_orphan:
  "fst (pg_create_bot bot_2_created (store_S :: turn database) big_client_request)
     = SendError 500 ''Internal server error''
   \<and> map b_block_id (blocks (snd (pg_create_bot bot_2_created (store_S :: turn database)
        big_client_request))) = [''S'', ''T'']
   \<and> map m_block_id (block_meetings (snd (pg_create_bot bot_2_created (store_S :: turn database)
        big_client_request))) = [''S'']
   \<and> map b_block_id (orphan_blocks (snd (pg_create_bot bot_2_created (store_S :: turn database)
        big_client_request))) = [''T'']"
  by code_simp

section \<open>Racing resolutions of one speaker\<close>

lemma insert_attendee_Inl:
  "insert_attendee w db b s story = (Inl e, db1) \<Longrightarrow> block_attendees db1 = block_attendees db"
  unfolding insert_attendee_def Let_def
  by (cases s) (auto split: if_splits)

text \<open>A call that runs alone, both queries in a row, is \<^verbatim>\<open>getOrCreateAttendee\<close>.\<close>

lemma call_alone:
  "race w1 w2 b s [True, True] (Start, c2, db) =
     (case getOrCreateAttendee w1 db b s of
        (Inl e, db') \<Rightarrow> (Threw e, c2, db')
      | (Inr a, db') \<Rightarrow> (Returned a, c2, db'))"
proof (cases "select_attendees db b s")
  case Nil
  then show ?thesis
    by (cases "insert_attendee w1 db b s (story_template s)")
       (auto simp: getOrCreateAttendee_def split: sum.splits)
next
  case (Cons a as)
  then show ?thesis by (simp add: getOrCreateAttendee_def)
qed

lemma call_step_rows:
  assumes "call_step w b s c db = (c', db')" "length (select_attendees db b s) \<le> 1"
  shows "length (select_attendees db' b s) \<le> 1
     \<and> set (select_attendees db b s) \<subseteq> set (select_attendees db' b s)
     \<and> (returned_ok db b s c \<longrightarrow> returned_ok db' b s c')"
proof (cases c)
  case Start
  with assms show ?thesis
    by (cases "select_attendees db b s") (auto simp: returned_ok_def)
next
  case AwaitingInsert
  show ?thesis
  proof (cases "insert_attendee w db b s (story_template s)")
    case (Pair r db1)
    show ?thesis
    proof (cases r)
      case (Inl e)
      with Pair AwaitingInsert assms(1) have c': "c' = Threw e" "db' = db1" by simp_all
      from insert_attendee_Inl[OF Pair[unfolded Inl]]
      have "select_attendees db1 b s = select_attendees db b s"
        by (simp add: select_attendees_def)
      with c' assms(2) show ?thesis by (simp add: returned_ok_def)
    next
      case (Inr a)
      with Pair AwaitingInsert assms(1) have c': "c' = Returned a" "db' = db1" by simp_all
      from insert_attendee_Inr[OF Pair[unfolded Inr]] obtain n where n: "s = Some n"
        and none: "select_attendees db b s = []"
        and a: "a_block_id a = Some b" "a_name a = n"
        and db1: "block_attendees db1 = block_attendees db @ [a]"
        by auto
      have "select_attendees db1 b s = [a]"
        using none n a db1 by (simp add: select_attendees_def)
      with c' none show ?thesis by (simp add: returned_ok_def)
    qed
  qed
next
  case (Returned a)
  with assms show ?thesis by auto
next
  case (Threw e)
  with assms show ?thesis by auto
qed

lemma returned_ok_mono:
  "set (select_attendees db b s) \<subseteq> set (select_attendees db' b s) \<Longrightarrow>
     returned_ok db b s c \<Longrightarrow> returned_ok db' b s c"
  by (cases c) (auto simp: returned_ok_def)

lemma race_invariant:
  assumes "race w1 w2 b s sched (c1, c2, db) = (c1', c2', db')"
    and "length (select_attendees db b s) \<le> 1"
    and "returned_ok db b s c1" "returned_ok db b s c2"
  shows "length (select_attendees db' b s) \<le> 1
     \<and> returned_ok db' b s c1' \<and> returned_ok db' b s c2'"
  using assms
proof (induction sched arbitrary: c1 c2 db)
  case Nil
  then show ?case by simp
next
  case (Cons first sched)
  show ?case
  proof (cases first)
    case True
    obtain c db1 where st: "call_step w1 b s c1 db = (c, db1)"
      by (cases "call_step w1 b s c1 db")
    from Cons.prems(1) True st have r: "race w1 w2 b s sched (c, c2, db1) = (c1', c2', db')"
      by simp
    from call_step_rows[OF st Cons.prems(2)] Cons.prems(3)
    have "length (select_attendees db1 b s) \<le> 1" "returned_ok db1 b s c"
      "set (select_attendees db b s) \<subseteq> set (select_attendees db1 b s)" by blast+
    with Cons.IH[OF r] returned_ok_mono[of db b s db1 c2] Cons.prems(4) show ?thesis by blast
  next
    case False
    obtain c db1 where st: "call_step w2 b s c2 db = (c, db1)"
      by (cases "call_step w2 b s c2 db")
    from Cons.prems(1) False st have r: "race w1 w2 b s sched (c1, c, db1) = (c1', c2', db')"
      by simp
    from call_step_rows[OF st Cons.prems(2)] Cons.prems(4)
    have "length (select_attendees db1 b s) \<le> 1" "returned_ok db1 b s c"
      "set (select_attendees db b s) \<subseteq> set (select_attendees db1 b s)" by blast+
    with Cons.IH[OF r] returned_ok_mono[of db b s db1 c1] Cons.prems(3) show ?thesis by blast
  qed
qed

text \<open>
  C6, as the code has it. Two calls of \<^verbatim>\<open>getOrCreateAttendee\<close> for the same block and
  speaker, their queries interleaved in any order, on a store with at most one row for
  that pair: afterwards the store still has at most one such row, and when both calls
  returned an attendee it is the same row.
\<close>

theorem race_at_most_one:
  assumes "race w1 w2 b s sched (Start, Start, db) = (c1', c2', db')"
    and "length (select_attendees db b s) \<le> 1"
  shows "length (select_attendees db' b s) \<le> 1
     \<and> (\<forall>a1 a2. c1' = Returned a1 \<and> c2' = Returned a2 \<longrightarrow> a1 = a2)"
proof -
  from race_invariant[OF assms] have len: "length (select_attendees db' b s) \<le> 1"
    and r1: "returned_ok db' b s c1'" and r2: "returned_ok db' b s c2'"
    by (simp_all add: returned_ok_def)
  have "a1 = a2" if "c1' = Returned a1" "c2' = Returned a2" for a1 a2
  proof -
    from that r1 r2 have "a1 \<in> set (select_attendees db' b s)" "a2 \<in> set (select_attendees db' b s)"
      by (simp_all add: returned_ok_def)
    with len show ?thesis
      by (cases "select_attendees db' b s") auto
  qed
  with len show ?thesis by blast
qed

theorem race_at_most_one_witness:
  "race (quiet ''t1'' ''u1'') (quiet ''t2'' ''u2'') ''S'' (Some ''Dana'') [True, True, False, False]
       (Start, Start, store_S :: turn database)
     = (Returned dana, Returned dana, store_Dana)
   \<and> length (select_attendees (store_S :: turn database) ''S'' (Some ''Dana'')) \<le> 1
   \<and> length (select_attendees (store_Dana :: turn database) ''S'' (Some ''Dana'')) \<le> 1"
proof -
  have r: "race (quiet ''t1'' ''u1'') (quiet ''t2'' ''u2'') ''S'' (Some ''Dana'') [True, True, False, False]
       (Start, Start, store_S :: turn database)
     = (Returned dana, Returned dana, store_Dana)"
    by code_simp
  have l: "length (select_attendees (store_S :: turn database) ''S'' (Some ''Dana'')) \<le> 1"
    by code_simp
  from race_at_most_one[OF r l] r l show ?thesis by blast
qed

theorem race_loser_throws_counterexample:
  "fst (race (quiet ''t1'' ''u1'') (quiet ''t2'' ''u2'') ''S'' (Some ''Dana'') both_select_first
       (Start, Start, store_S :: turn database)) = Returned dana
   \<and> fst (snd (race (quiet ''t1'' ''u1'') (quiet ''t2'' ''u2'') ''S'' (Some ''Dana'') both_select_first
       (Start, Start, store_S :: turn database))) = Threw UniqueViolation
   \<and> block_attendees (snd (snd (race (quiet ''t1'' ''u1'') (quiet ''t2'' ''u2'') ''S'' (Some ''Dana'')
       both_select_first (Start, Start, store_S :: turn database)))) = [dana]"
  by code_simp

end
